theory Spec2Isabelle
  imports Main "HOL-Library.Word"
begin

unbundle bit_operations_syntax

section \<open>The light service of the meizu sm8150 device tree (light/Light.cpp)\<close>

subsection \<open>Types of the light interface (android.hardware.light, version 2.0)\<close>

text \<open>
  Light.cpp includes Light.h and, through it, the interface types of the platform's
  light service. They are written here as the interface declares them: the enumerations in
  their declared order, \<open>LightState\<close> with its five fields.
\<close>

type_synonym uint32_t = "32 word"
type_synonym int32_t = "32 word"

datatype Type = BACKLIGHT | KEYBOARD | BUTTONS | BATTERY | NOTIFICATIONS | ATTENTION
  | BLUETOOTH | WIFI

datatype Status = SUCCESS | LIGHT_NOT_SUPPORTED | BRIGHTNESS_NOT_SUPPORTED | UNKNOWN

datatype Flash = NONE | TIMED | HARDWARE

datatype Brightness = USER | SENSOR | LOW_PERSISTENCE

record LightState =
  color :: uint32_t
  flashMode :: Flash
  flashOnMs :: int32_t
  flashOffMs :: int32_t
  brightnessMode :: Brightness

text \<open>The numeric value of a \<open>Type\<close>: its position in the enumeration, from 0.\<close>

fun Type_val :: "Type \<Rightarrow> int" where
  "Type_val BACKLIGHT = 0"
| "Type_val KEYBOARD = 1"
| "Type_val BUTTONS = 2"
| "Type_val BATTERY = 3"
| "Type_val NOTIFICATIONS = 4"
| "Type_val ATTENTION = 5"
| "Type_val BLUETOOTH = 6"
| "Type_val WIFI = 7"

subsection \<open>Constants and paths\<close>

definition PANEL_BRIGHTNESS_PATH :: string where
  "PANEL_BRIGHTNESS_PATH = ''/sys/class/backlight/panel0-backlight/brightness''"

definition PANEL_MAX_BRIGHTNESS_PATH :: string where
  "PANEL_MAX_BRIGHTNESS_PATH = ''/sys/class/backlight/panel0-backlight/max_brightness''"

text \<open>
  \<open>MX_LED_BLINK_PATH\<close> is \<open>LIGHT_MX_LED_PATH "/blink"\<close>. The macro \<open>LIGHT_MX_LED_PATH\<close> comes
  from the build flags, so it is the parameter \<open>mx\<close> here and in every function that
  writes the LED.
\<close>

definition MX_LED_BLINK_PATH :: "string \<Rightarrow> string" where
  "MX_LED_BLINK_PATH mx = mx @ ''/blink''"

definition LED_OFF :: int where
  "LED_OFF = 0"

definition LED_BLINK :: int where
  "LED_BLINK = 10"

definition DEFAULT_MAX_BRIGHTNESS :: uint32_t where
  "DEFAULT_MAX_BRIGHTNESS = 255"

subsection \<open>The anonymous namespace: rgbToBrightness and isLit\<close>

definition rgbToBrightness :: "LightState \<Rightarrow> uint32_t" where
  "rgbToBrightness state =
     (let c = color state AND 0x00ffffff
      in drop_bit 8 (77 * (drop_bit 16 c AND 0xff) + 150 * (drop_bit 8 c AND 0xff)
                      + 29 * (c AND 0xff)))"

definition isLit :: "LightState \<Rightarrow> bool" where
  "isLit state = (color state AND 0x00ffffff \<noteq> 0)"

subsection \<open>Effects\<close>

text \<open>
  What a call does besides changing the object is recorded as a list of events in program
  order: taking and releasing \<open>mLock\<close> (the \<open>std::lock_guard\<close> of a handler, released at
  the end of its scope), an assignment to one of the two stored states, and \<open>set(path,
  value)\<close>, which opens the file at \<open>path\<close> and streams the number into it. A write that
  fails is dropped by the stream without a report, so the event stands for the attempt.
\<close>

datatype member = M_AttentionState | M_NotificationState

datatype event =
    Lock
  | Unlock
  | Assign member LightState
  | Write string int

definition set_value :: "string \<Rightarrow> int \<Rightarrow> event list" where
  "set_value path v = [Write path v]"

text \<open>
  \<open>get(path, def)\<close>: the argument \<open>r\<close> is what \<open>file >> result\<close> extracted, \<open>None\<close> when
  the stream is in the failed state afterwards (the file could not be opened, or holds no
  number of type \<open>T\<close>).
\<close>

definition get_value :: "'a option \<Rightarrow> 'a \<Rightarrow> 'a" where
  "get_value r d = (case r of None \<Rightarrow> d | Some v \<Rightarrow> v)"

fun writes :: "event list \<Rightarrow> (string \<times> int) list" where
  "writes [] = []"
| "writes (Write p v # es) = (p, v) # writes es"
| "writes (_ # es) = writes es"

text \<open>
  \<open>guarded held es\<close>: starting with the lock held or not, every assignment and every write of
  \<open>es\<close> happens while the lock is held, the lock is never taken twice, and it is free at
  the end.
\<close>

fun guarded :: "bool \<Rightarrow> event list \<Rightarrow> bool" where
  "guarded held [] = (\<not> held)"
| "guarded held (Lock # es) = (\<not> held \<and> guarded True es)"
| "guarded held (Unlock # es) = (held \<and> guarded False es)"
| "guarded held (Assign m s # es) = (held \<and> guarded held es)"
| "guarded held (Write p v # es) = (held \<and> guarded held es)"

subsection \<open>The Light object\<close>

text \<open>
  The members are declared in Light.h. \<open>mPanelMaxBrightness\<close> takes the \<open>int\<close> that
  \<open>get\<close> returns and meets the \<open>uint32_t\<close> brightness in \<open>setPanelBacklight\<close>, where the
  usual arithmetic conversions make the product and the quotient unsigned 32-bit whether
  the member is declared \<open>int\<close> or \<open>uint32_t\<close>; so it is a 32-bit word here. \<open>mLights\<close> is an
  associative container with unique keys from \<open>Type\<close> to the bound handler; it is kept as
  the list of its entries in the order in which the container iterates.
\<close>

datatype handler = attnFn | backlightFn | notifFn

record Light =
  mPanelMaxBrightness :: uint32_t
  mAttentionState :: LightState
  mNotificationState :: LightState
  mLights :: "(Type \<times> handler) list"

text \<open>
  \<open>emplace\<close> adds an entry unless the key is present. Where the new entry appears in the
  iteration is the container's business: \<open>rank\<close> gives each key its place in that order
  (for \<open>std::map\<close> the key's own value, \<open>Type_val\<close>).
\<close>

definition emplace :: "('k \<Rightarrow> int) \<Rightarrow> 'k \<times> 'v \<Rightarrow> ('k \<times> 'v) list \<Rightarrow> ('k \<times> 'v) list" where
  "emplace rank kv m =
     (if fst kv \<in> fst ` set m then m else insort_key (\<lambda>e. rank (fst e)) kv m)"

definition find_key :: "'k \<Rightarrow> ('k \<times> 'v) list \<Rightarrow> 'v option" where
  "find_key k m = map_of m k"

text \<open>
  The constructor sets \<open>mPanelMaxBrightness\<close> and fills \<open>mLights\<close>. It does not assign the two
  stored states: \<open>a0\<close> and \<open>n0\<close> are what their declarations in Light.h leave in them.
\<close>

definition Light_ctor :: "(Type \<Rightarrow> int) \<Rightarrow> uint32_t option \<Rightarrow> LightState \<Rightarrow> LightState \<Rightarrow> Light" where
  "Light_ctor rank cap a0 n0 =
     \<lparr> mPanelMaxBrightness = get_value cap DEFAULT_MAX_BRIGHTNESS,
       mAttentionState = a0,
       mNotificationState = n0,
       mLights = emplace rank (NOTIFICATIONS, notifFn)
                  (emplace rank (BACKLIGHT, backlightFn)
                    (emplace rank (ATTENTION, attnFn) [])) \<rparr>"

subsection \<open>The handlers\<close>

definition setSpeakerBatteryLightLocked :: "string \<Rightarrow> Light \<Rightarrow> event list" where
  "setSpeakerBatteryLightLocked mx l =
     (if isLit (mNotificationState l) then set_value (MX_LED_BLINK_PATH mx) LED_BLINK
      else if isLit (mAttentionState l) then set_value (MX_LED_BLINK_PATH mx) LED_BLINK
      else set_value (MX_LED_BLINK_PATH mx) LED_OFF)"

definition setAttentionLight :: "string \<Rightarrow> LightState \<Rightarrow> Light \<Rightarrow> event list \<times> Light" where
  "setAttentionLight mx state l =
     (let l' = l\<lparr>mAttentionState := state\<rparr>
      in ([Lock, Assign M_AttentionState state] @ setSpeakerBatteryLightLocked mx l' @ [Unlock],
          l'))"

text \<open>
  The product and the quotient are unsigned 32-bit: the product wraps around, the
  division truncates. The verbose log line is left out.
\<close>

definition setPanelBacklight :: "LightState \<Rightarrow> Light \<Rightarrow> event list \<times> Light" where
  "setPanelBacklight state l =
     (let brightness = rgbToBrightness state;
          brightness = (if mPanelMaxBrightness l \<noteq> DEFAULT_MAX_BRIGHTNESS
                        then brightness * mPanelMaxBrightness l div DEFAULT_MAX_BRIGHTNESS
                        else brightness)
      in ([Lock] @ set_value PANEL_BRIGHTNESS_PATH (uint brightness) @ [Unlock], l))"

definition setNotificationLight :: "string \<Rightarrow> LightState \<Rightarrow> Light \<Rightarrow> event list \<times> Light" where
  "setNotificationLight mx state l =
     (let l' = l\<lparr>mNotificationState := state\<rparr>
      in ([Lock, Assign M_NotificationState state] @ setSpeakerBatteryLightLocked mx l'
            @ [Unlock],
          l'))"

fun invoke :: "string \<Rightarrow> handler \<Rightarrow> LightState \<Rightarrow> Light \<Rightarrow> event list \<times> Light" where
  "invoke mx attnFn state l = setAttentionLight mx state l"
| "invoke mx backlightFn state l = setPanelBacklight state l"
| "invoke mx notifFn state l = setNotificationLight mx state l"

subsection \<open>The interface methods\<close>

definition setLight :: "string \<Rightarrow> Type \<Rightarrow> LightState \<Rightarrow> Light \<Rightarrow> Status \<times> event list \<times> Light" where
  "setLight mx type state l =
     (case find_key type (mLights l) of
        None \<Rightarrow> (LIGHT_NOT_SUPPORTED, [], l)
      | Some h \<Rightarrow> (let (es, l') = invoke mx h state l in (SUCCESS, es, l')))"


text \<open>The object after a history of \<open>setLight\<close> calls, oldest first.\<close>

fun calls :: "string \<Rightarrow> (Type \<times> LightState) list \<Rightarrow> Light \<Rightarrow> Light" where
  "calls mx [] l = l"
| "calls mx ((t, s) # cs) l = calls mx cs (snd (snd (setLight mx t s l)))"

text \<open>
  \<open>replay es l\<close> performs the assignments that \<open>es\<close> records on \<open>l\<close>, in order. It ties the
  events of a call to the change of the object: a call whose new object is \<open>replay es l\<close>
  changed it by the recorded assignments and by nothing else.
\<close>

fun replay :: "event list \<Rightarrow> Light \<Rightarrow> Light" where
  "replay [] l = l"
| "replay (Assign M_AttentionState s # es) l = replay es (l\<lparr>mAttentionState := s\<rparr>)"
| "replay (Assign M_NotificationState s # es) l = replay es (l\<lparr>mNotificationState := s\<rparr>)"
| "replay (_ # es) l = replay es l"

text \<open>A steady light of the given colour, for concrete inputs.\<close>

definition solid :: "uint32_t \<Rightarrow> LightState" where
  "solid c = \<lparr> color = c, flashMode = NONE, flashOnMs = 0, flashOffMs = 0,
               brightnessMode = USER \<rparr>"

section \<open>Properties\<close>

subsection \<open>The channel table\<close>

lemma map_of_insort_key:
  "k \<notin> fst ` set m \<Longrightarrow> map_of (insort_key (\<lambda>e. rank (fst e)) (k, v) m) = (map_of m)(k \<mapsto> v)"
  by (induction m) (auto simp: fun_upd_twist)

lemma find_emplace:
  "find_key t (emplace rank (k, v) m) =
     (if k \<in> fst ` set m then find_key t m else if t = k then Some v else find_key t m)"
  by (simp add: find_key_def emplace_def map_of_insort_key)

lemma keys_emplace:
  "fst ` set (emplace rank (k, v) m) = insert k (fst ` set m)"
  by (auto simp: emplace_def set_insort_key)

lemma find_ctor:
  "find_key t (mLights (Light_ctor rank cap a0 n0)) =
     (if t = NOTIFICATIONS then Some notifFn
      else if t = BACKLIGHT then Some backlightFn
      else if t = ATTENTION then Some attnFn
      else None)"
  by (simp add: Light_ctor_def find_emplace keys_emplace) (simp add: find_key_def)

subsection \<open>Bytes of the colour\<close>

lemma and_ff: "(x :: uint32_t) AND 0xff = take_bit 8 x"
  by (simp add: take_bit_eq_mask mask_eq_exp_minus_1)

lemma and_ffffff: "(x :: uint32_t) AND 0xffffff = take_bit 24 x"
  by (simp add: take_bit_eq_mask mask_eq_exp_minus_1)

lemma unat_byte: "unat (take_bit 8 (x :: uint32_t)) = unat x mod 256"
  by (simp add: take_bit_eq_mod unat_mod_distrib)

lemma unat_drop8: "unat (drop_bit 8 (x :: uint32_t)) = unat x div 256"
  by (simp add: drop_bit_eq_div unat_div_distrib)

lemma unat_drop16: "unat (drop_bit 16 (x :: uint32_t)) = unat x div 65536"
  by (simp add: drop_bit_eq_div unat_div_distrib)

lemma red_byte:
  "drop_bit 16 ((x :: uint32_t) AND 0xffffff) AND 0xff = take_bit 8 (drop_bit 16 x)"
  by (simp only: and_ff and_ffffff drop_bit_take_bit take_bit_take_bit) simp

lemma green_byte:
  "drop_bit 8 ((x :: uint32_t) AND 0xffffff) AND 0xff = take_bit 8 (drop_bit 8 x)"
  by (simp only: and_ff and_ffffff drop_bit_take_bit take_bit_take_bit) simp

lemma blue_byte: "((x :: uint32_t) AND 0xffffff) AND 0xff = take_bit 8 x"
  by (simp only: and_ff and_ffffff take_bit_take_bit) simp

text \<open>The weighted sum of three bytes stays far below \<open>2 ^ 32\<close>, so it does not wrap.\<close>

lemma luma_sum:
  fixes r g b :: uint32_t
  assumes "unat r < 256" "unat g < 256" "unat b < 256"
  shows "unat (77 * r + 150 * g + 29 * b) = 77 * unat r + 150 * unat g + 29 * unat b"
proof -
  have r: "unat (77 * r) = 77 * unat r"
    using assms(1) by (simp add: unat_mult_lem [THEN iffD1])
  have g: "unat (150 * g) = 150 * unat g"
    using assms(2) by (simp add: unat_mult_lem [THEN iffD1])
  have b: "unat (29 * b) = 29 * unat b"
    using assms(3) by (simp add: unat_mult_lem [THEN iffD1])
  have rg: "unat (77 * r + 150 * g) = 77 * unat r + 150 * unat g"
    using assms r g by (simp add: unat_add_lem [THEN iffD1])
  show ?thesis
    using assms rg b by (simp add: unat_add_lem [THEN iffD1])
qed

lemma luma_nat:
  "unat (rgbToBrightness state) =
     (77 * (unat (color state) div 65536 mod 256) + 150 * (unat (color state) div 256 mod 256)
        + 29 * (unat (color state) mod 256)) div 256"
proof -
  define r where "r = take_bit 8 (drop_bit 16 (color state))"
  define g where "g = take_bit 8 (drop_bit 8 (color state))"
  define b where "b = take_bit 8 (color state)"
  have r: "unat r = unat (color state) div 65536 mod 256"
    by (simp only: r_def unat_byte unat_drop16)
  have g: "unat g = unat (color state) div 256 mod 256"
    by (simp only: g_def unat_byte unat_drop8)
  have b: "unat b = unat (color state) mod 256"
    by (simp only: b_def unat_byte)
  have "unat r < 256" "unat g < 256" "unat b < 256"
    by (simp_all add: r g b)
  then have "unat (77 * r + 150 * g + 29 * b) = 77 * unat r + 150 * unat g + 29 * unat b"
    by (rule luma_sum)
  moreover have "rgbToBrightness state = drop_bit 8 (77 * r + 150 * g + 29 * b)"
    by (simp only: rgbToBrightness_def Let_def red_byte green_byte blue_byte r_def g_def b_def)
  ultimately show ?thesis
    by (simp only: unat_drop8 r g b)
qed

lemma luma_le_255: "unat (rgbToBrightness state) \<le> 255"
proof -
  have "unat (color state) div 65536 mod 256 \<le> 255" "unat (color state) div 256 mod 256 \<le> 255"
    "unat (color state) mod 256 \<le> 255"
    by simp_all
  then show ?thesis
    unfolding luma_nat by linarith
qed

subsection \<open>What a call leaves alone\<close>

lemma blink_path_neq: "MX_LED_BLINK_PATH mx \<noteq> PANEL_BRIGHTNESS_PATH"
proof
  assume "MX_LED_BLINK_PATH mx = PANEL_BRIGHTNESS_PATH"
  then have "last (MX_LED_BLINK_PATH mx) = last PANEL_BRIGHTNESS_PATH"
    by simp
  then show False
    by (simp add: MX_LED_BLINK_PATH_def PANEL_BRIGHTNESS_PATH_def)
qed

lemma led_events:
  "setSpeakerBatteryLightLocked mx l =
     [Write (MX_LED_BLINK_PATH mx)
        (if isLit (mNotificationState l) then 10 else if isLit (mAttentionState l) then 10 else 0)]"
  by (simp add: setSpeakerBatteryLightLocked_def set_value_def LED_BLINK_def LED_OFF_def)

lemma setLight_mLights: "mLights (snd (snd (setLight mx t s l))) = mLights l"
  by (cases "find_key t (mLights l)"; cases "the (find_key t (mLights l))")
     (simp_all add: setLight_def setAttentionLight_def setPanelBacklight_def
        setNotificationLight_def Let_def)

lemma setLight_max:
  "mPanelMaxBrightness (snd (snd (setLight mx t s l))) = mPanelMaxBrightness l"
  by (cases "find_key t (mLights l)"; cases "the (find_key t (mLights l))")
     (simp_all add: setLight_def setAttentionLight_def setPanelBacklight_def
        setNotificationLight_def Let_def)

lemma calls_mLights: "mLights (calls mx cs l) = mLights l"
  by (induction cs arbitrary: l) (auto simp: setLight_mLights)

lemma calls_max: "mPanelMaxBrightness (calls mx cs l) = mPanelMaxBrightness l"
  by (induction cs arbitrary: l) (auto simp: setLight_max)

lemma find_reachable:
  "find_key t (mLights (calls mx cs (Light_ctor rank cap a0 n0))) =
     (if t = NOTIFICATIONS then Some notifFn
      else if t = BACKLIGHT then Some backlightFn
      else if t = ATTENTION then Some attnFn
      else None)"
  by (simp only: calls_mLights find_ctor)

text \<open>On a constructed object, after any history, \<open>setLight\<close> is this dispatch.\<close>

lemma setLight_reachable:
  assumes "l = calls mx cs (Light_ctor rank cap a0 n0)"
  shows "setLight mx t state l =
     (if t = NOTIFICATIONS then (SUCCESS, setNotificationLight mx state l)
      else if t = BACKLIGHT then (SUCCESS, setPanelBacklight state l)
      else if t = ATTENTION then (SUCCESS, setAttentionLight mx state l)
      else (LIGHT_NOT_SUPPORTED, [], l))"
  unfolding assms setLight_def find_reachable
  by (simp add: split_def)

subsection \<open>The scaled brightness\<close>

lemma scaled_uint:
  "uint ((b :: uint32_t) * m div 255) = int (unat b * unat m mod 4294967296 div 255)"
proof -
  have "unat (b * m div 255) = unat b * unat m mod 4294967296 div 255"
    by (simp add: unat_div_distrib unat_word_ariths)
  then show ?thesis
    by (simp only: uint_nat)
qed

lemma no_wrap:
  fixes b m :: nat
  assumes "b \<le> 255" "m \<le> 16843009"
  shows "b * m mod 4294967296 = b * m"
proof -
  have "b * m \<le> 255 * 16843009"
    using assms by (rule mult_le_mono)
  then show ?thesis by simp
qed

subsection \<open>The keys of the channel table\<close>






subsection \<open>Repeating a call, the lock, the payload\<close>

lemma setLight_twice:
  "setLight mx t state (snd (snd (setLight mx t state l))) = setLight mx t state l"
proof (cases "find_key t (mLights l)")
  case None
  then show ?thesis by (simp add: setLight_def)
next
  case (Some h)
  then show ?thesis
    by (cases h)
       (simp_all add: setLight_def setAttentionLight_def setPanelBacklight_def
          setNotificationLight_def Let_def led_events)
qed

lemma guarded_handlers:
  "guarded False (fst (setAttentionLight mx state l))"
  "guarded False (fst (setNotificationLight mx state l))"
  "guarded False (fst (setPanelBacklight state l))"
  by (simp_all add: setAttentionLight_def setNotificationLight_def setPanelBacklight_def Let_def
      led_events set_value_def)

lemma replay_handlers:
  "replay (fst (setAttentionLight mx state l)) l = snd (setAttentionLight mx state l)"
  "replay (fst (setNotificationLight mx state l)) l = snd (setNotificationLight mx state l)"
  "replay (fst (setPanelBacklight state l)) l = snd (setPanelBacklight state l)"
  by (simp_all add: setAttentionLight_def setNotificationLight_def setPanelBacklight_def Let_def
      led_events set_value_def)

lemma payload_lit:
  "color s1 AND 0x00ffffff = color s2 AND 0x00ffffff \<Longrightarrow> isLit s1 = isLit s2"
  by (simp add: isLit_def)

lemma payload_luma:
  "color s1 AND 0x00ffffff = color s2 AND 0x00ffffff \<Longrightarrow> rgbToBrightness s1 = rgbToBrightness s2"
  by (simp add: rgbToBrightness_def)

section \<open>The claims\<close>

text \<open>
  C4. For every \<open>LightState\<close> the luma that \<open>rgbToBrightness\<close> returns is
  \<open>(77 * R + 150 * G + 29 * B) >> 8\<close> in integer arithmetic, where \<open>R\<close>, \<open>G\<close> and \<open>B\<close> are
  bits 16 to 23, 8 to 15 and 0 to 7 of the colour; the sum never wraps. Whatever the other
  fields hold, colour \<open>0x00FF0000\<close> gives 76, \<open>0x0000FF00\<close> gives 149, \<open>0x000000FF\<close> gives
  28 and \<open>0x00FFFFFF\<close> gives 255.
\<close>

theorem rgbToBrightness_luma:
  "unat (rgbToBrightness state) =
     (77 * (unat (color state) div 65536 mod 256) + 150 * (unat (color state) div 256 mod 256)
        + 29 * (unat (color state) mod 256)) div 256
   \<and> rgbToBrightness (s\<lparr>color := 0x00FF0000\<rparr>) = 76
   \<and> rgbToBrightness (s\<lparr>color := 0x0000FF00\<rparr>) = 149
   \<and> rgbToBrightness (s\<lparr>color := 0x000000FF\<rparr>) = 28
   \<and> rgbToBrightness (s\<lparr>color := 0x00FFFFFF\<rparr>) = 255"
proof -
  have "rgbToBrightness (s\<lparr>color := 0x00FF0000\<rparr>) = 76"
    by (simp add: rgbToBrightness_def)
  moreover have "rgbToBrightness (s\<lparr>color := 0x0000FF00\<rparr>) = 149"
    by (simp add: rgbToBrightness_def)
  moreover have "rgbToBrightness (s\<lparr>color := 0x000000FF\<rparr>) = 28"
    by (simp add: rgbToBrightness_def)
  moreover have "rgbToBrightness (s\<lparr>color := 0x00FFFFFF\<rparr>) = 255"
    by (simp add: rgbToBrightness_def)
  ultimately show ?thesis
    using luma_nat [of state] by blast
qed

theorem rgbToBrightness_luma_witness:
  "rgbToBrightness (solid 0x00FF0000) = 76 \<and> rgbToBrightness (solid 0x0000FF00) = 149
   \<and> rgbToBrightness (solid 0x000000FF) = 28 \<and> rgbToBrightness (solid 0x00FFFFFF) = 255
   \<and> unat (rgbToBrightness (solid 0x00808080)) = (77 * 128 + 150 * 128 + 29 * 128) div 256"
  using rgbToBrightness_luma [of "solid 0x00808080" "solid 0"]
  by (simp add: solid_def)

text \<open>
  C1. After an ATTENTION or NOTIFICATIONS update, on an object built by the constructor and
  after any history of calls, the one device write of the call goes to the LED blink
  control and its value is determined by the two stored states as they are after the
  update: 10 if the notification state is lit, else 10 if the attention state is lit, else
  0. The updated slot holds the state just passed and the other slot is as before, so
  nothing but the two most recently set states enters the value.
\<close>

theorem led_arbitration:
  assumes "t = ATTENTION \<or> t = NOTIFICATIONS"
    and "l = calls mx cs (Light_ctor rank cap a0 n0)"
  shows "case setLight mx t state l of (st, es, l') \<Rightarrow>
           writes es = [(MX_LED_BLINK_PATH mx,
                         if isLit (mNotificationState l') then 10
                         else if isLit (mAttentionState l') then 10
                         else 0)]
         \<and> mAttentionState l' = (if t = ATTENTION then state else mAttentionState l)
         \<and> mNotificationState l' = (if t = NOTIFICATIONS then state else mNotificationState l)"
  using assms(1)
  by (auto simp: setLight_reachable [OF assms(2)] setAttentionLight_def
      setNotificationLight_def Let_def led_events)

text \<open>
  The first step of the spec's arbitration scenario: with NOTIFICATIONS set to red, setting
  ATTENTION to colour 0 still writes 10.
\<close>

theorem led_arbitration_witness:
  "(ATTENTION = ATTENTION \<or> ATTENTION = NOTIFICATIONS)
   \<and> writes (fst (snd (setLight ''/sys/class/leds/mx-led'' ATTENTION (solid 0)
        (calls ''/sys/class/leds/mx-led'' [(NOTIFICATIONS, solid 0x00FF0000)]
           (Light_ctor Type_val None (solid 0) (solid 0))))))
       = [(''/sys/class/leds/mx-led/blink'', 10)]"
  using led_arbitration [of ATTENTION _ "''/sys/class/leds/mx-led''"
      "[(NOTIFICATIONS, solid 0x00FF0000)]" Type_val None "solid 0" "solid 0" "solid 0", OF _ refl]
  by (simp add: split_def setLight_def Light_ctor_def emplace_def find_key_def
      setNotificationLight_def setAttentionLight_def Let_def isLit_def solid_def
      MX_LED_BLINK_PATH_def)

text \<open>
  C2, as the code has it. When \<open>mPanelMaxBrightness\<close> is not 255, the BACKLIGHT call writes
  \<open>luma * mPanelMaxBrightness / 255\<close> computed in unsigned 32-bit arithmetic: the product is
  taken modulo \<open>2 ^ 32\<close>, the division truncates. Up to a maximum of 16843009 the product
  cannot wrap and the value is \<open>luma * mPanelMaxBrightness div 255\<close> on the integers.
\<close>

theorem backlight_scaling:
  assumes "m \<noteq> 255"
    and "l = calls mx cs (Light_ctor rank (Some m) a0 n0)"
  shows "case setLight mx BACKLIGHT state l of (st, es, l') \<Rightarrow>
           writes es = [(PANEL_BRIGHTNESS_PATH,
                         int (unat (rgbToBrightness state) * unat m mod 4294967296 div 255))]
         \<and> (unat m \<le> 16843009 \<longrightarrow>
              writes es = [(PANEL_BRIGHTNESS_PATH,
                            int (unat (rgbToBrightness state) * unat m div 255))])"
proof -
  have m: "mPanelMaxBrightness l = m"
    by (simp add: assms(2) calls_max Light_ctor_def get_value_def)
  have w: "writes (fst (setPanelBacklight state l)) =
      [(PANEL_BRIGHTNESS_PATH, int (unat (rgbToBrightness state) * unat m mod 4294967296 div 255))]"
    using assms(1)
    by (simp add: setPanelBacklight_def Let_def set_value_def m DEFAULT_MAX_BRIGHTNESS_def
        scaled_uint)
  show ?thesis
    using w no_wrap [OF luma_le_255 [of state], of "unat m"]
    by (simp add: setLight_reachable [OF assms(2)] split_def)
qed

text \<open>With a maximum of 4095 and the grey \<open>0x808080\<close>, whose luma is 128, the write is 2055.\<close>

theorem backlight_scaling_witness:
  "(4095 :: uint32_t) \<noteq> 255 \<and> unat (4095 :: uint32_t) \<le> 16843009
   \<and> rgbToBrightness (solid 0x808080) = 128
   \<and> writes (fst (snd (setLight ''/sys/class/leds/mx-led'' BACKLIGHT (solid 0x808080)
        (calls ''/sys/class/leds/mx-led'' [] (Light_ctor Type_val (Some 4095) (solid 0) (solid 0))))))
       = [(PANEL_BRIGHTNESS_PATH, 2055)]"
  using backlight_scaling [of 4095 _ "''/sys/class/leds/mx-led''" "[]" Type_val "solid 0"
      "solid 0" "solid 0x808080", OF _ refl]
  by (simp add: split_def rgbToBrightness_def solid_def)

text \<open>
  C2, as the spec states it, fails in its example: 128 * 4095 is 524160 and 255 * 2055 is
  524025, so the truncated quotient is 2055; the handler does not write 2056.
\<close>

theorem backlight_scaling_counterexample:
  "rgbToBrightness (solid 0x808080) = 128
   \<and> writes (fst (setPanelBacklight (solid 0x808080)
        (Light_ctor Type_val (Some 4095) (solid 0) (solid 0))))
       = [(PANEL_BRIGHTNESS_PATH, 128 * 4095 div 255)]
   \<and> writes (fst (setPanelBacklight (solid 0x808080)
        (Light_ctor Type_val (Some 4095) (solid 0) (solid 0))))
       \<noteq> [(PANEL_BRIGHTNESS_PATH, 2056)]"
  by (simp add: setPanelBacklight_def Light_ctor_def get_value_def DEFAULT_MAX_BRIGHTNESS_def
      rgbToBrightness_def solid_def set_value_def Let_def)

text \<open>
  C3. On an object built by the constructor, after any history of calls, \<open>setLight\<close> on a
  channel other than ATTENTION, BACKLIGHT and NOTIFICATIONS returns \<open>LIGHT_NOT_SUPPORTED\<close>,
  has no effect at all (no device write, no lock, no assignment) and leaves the whole
  object, the two stored states included, as it was, for every \<open>LightState\<close>.
\<close>

theorem unsupported_channel:
  assumes "t \<notin> {ATTENTION, BACKLIGHT, NOTIFICATIONS}"
    and "l = calls mx cs (Light_ctor rank cap a0 n0)"
  shows "setLight mx t state l = (LIGHT_NOT_SUPPORTED, [], l)"
  using assms(1) by (simp add: setLight_reachable [OF assms(2)])

theorem unsupported_channel_witness:
  "BATTERY \<notin> {ATTENTION, BACKLIGHT, NOTIFICATIONS}
   \<and> setLight ''/sys/class/leds/mx-led'' BATTERY (solid 0x00FFFFFF)
        (calls ''/sys/class/leds/mx-led'' [(ATTENTION, solid 0x00FF0000)]
           (Light_ctor Type_val (Some 4095) (solid 0) (solid 0)))
     = (LIGHT_NOT_SUPPORTED, [],
        \<lparr> mPanelMaxBrightness = 4095, mAttentionState = solid 0x00FF0000,
          mNotificationState = solid 0,
          mLights = [(BACKLIGHT, backlightFn), (NOTIFICATIONS, notifFn), (ATTENTION, attnFn)] \<rparr>)"
  using unsupported_channel [of BATTERY _ "''/sys/class/leds/mx-led''"
      "[(ATTENTION, solid 0x00FF0000)]" Type_val "Some 4095" "solid 0" "solid 0"
      "solid 0x00FFFFFF", OF _ refl]
  by (simp add: setLight_def Light_ctor_def emplace_def find_key_def get_value_def
      setAttentionLight_def Let_def)




text \<open>
  C6. On a constructed object, after any history of calls, calling \<open>setLight\<close> twice in
  succession with the same supported channel and the same \<open>LightState\<close> returns SUCCESS both
  times, the second call has the same effects as the first (the same device writes in
  particular) and leaves the object exactly as the first call left it.
\<close>

theorem setLight_idempotent:
  assumes "t \<in> {ATTENTION, BACKLIGHT, NOTIFICATIONS}"
    and "l = calls mx cs (Light_ctor rank cap a0 n0)"
  shows "case setLight mx t state l of (st1, es1, l1) \<Rightarrow>
           case setLight mx t state l1 of (st2, es2, l2) \<Rightarrow>
             st1 = SUCCESS \<and> st2 = SUCCESS \<and> es2 = es1 \<and> writes es2 = writes es1 \<and> l2 = l1"
proof -
  have "fst (setLight mx t state l) = SUCCESS"
    using assms(1) by (auto simp: setLight_reachable [OF assms(2)])
  then show ?thesis
    using setLight_twice [of mx t state l]
    by (auto simp: split_def)
qed

theorem setLight_idempotent_witness:
  "NOTIFICATIONS \<in> {ATTENTION, BACKLIGHT, NOTIFICATIONS}
   \<and> setLight ''/sys/class/leds/mx-led'' NOTIFICATIONS (solid 0x00FF0000)
        (Light_ctor Type_val None (solid 0) (solid 0))
       = (SUCCESS,
          [Lock, Assign M_NotificationState (solid 0x00FF0000),
           Write ''/sys/class/leds/mx-led/blink'' 10, Unlock],
          (Light_ctor Type_val None (solid 0) (solid 0))\<lparr>mNotificationState := solid 0x00FF0000\<rparr>)
   \<and> setLight ''/sys/class/leds/mx-led'' NOTIFICATIONS (solid 0x00FF0000)
        ((Light_ctor Type_val None (solid 0) (solid 0))\<lparr>mNotificationState := solid 0x00FF0000\<rparr>)
       = (SUCCESS,
          [Lock, Assign M_NotificationState (solid 0x00FF0000),
           Write ''/sys/class/leds/mx-led/blink'' 10, Unlock],
          (Light_ctor Type_val None (solid 0) (solid 0))\<lparr>mNotificationState := solid 0x00FF0000\<rparr>)"
proof -
  have first: "setLight ''/sys/class/leds/mx-led'' NOTIFICATIONS (solid 0x00FF0000)
        (Light_ctor Type_val None (solid 0) (solid 0))
       = (SUCCESS,
          [Lock, Assign M_NotificationState (solid 0x00FF0000),
           Write ''/sys/class/leds/mx-led/blink'' 10, Unlock],
          (Light_ctor Type_val None (solid 0) (solid 0))\<lparr>mNotificationState := solid 0x00FF0000\<rparr>)"
    by (simp add: setLight_def Light_ctor_def emplace_def find_key_def setNotificationLight_def
        Let_def led_events isLit_def solid_def MX_LED_BLINK_PATH_def)
  show ?thesis
    using setLight_idempotent [of NOTIFICATIONS _ "''/sys/class/leds/mx-led''" "[]" Type_val None
        "solid 0" "solid 0" "solid 0x00FF0000", OF _ refl]
    by (auto simp: first split: prod.splits)
qed

text \<open>
  C7. When the read of the capability file fails at construction, \<open>mPanelMaxBrightness\<close> is
  255 and stays 255 through any history of calls, and a BACKLIGHT call then writes the luma
  itself to the backlight control. (When the read succeeds, the value read stays as well.)
\<close>

theorem capability_fallback:
  "mPanelMaxBrightness (calls mx cs (Light_ctor rank None a0 n0)) = 255
   \<and> (case setLight mx BACKLIGHT state (calls mx cs (Light_ctor rank None a0 n0)) of
         (st, es, l') \<Rightarrow>
           writes es = [(PANEL_BRIGHTNESS_PATH, uint (rgbToBrightness state))])
   \<and> mPanelMaxBrightness (calls mx cs (Light_ctor rank (Some m) a0 n0)) = m"
proof -
  have m: "mPanelMaxBrightness (calls mx cs (Light_ctor rank None a0 n0)) = 255"
    by (simp add: calls_max Light_ctor_def get_value_def DEFAULT_MAX_BRIGHTNESS_def)
  have "writes (fst (setPanelBacklight state (calls mx cs (Light_ctor rank None a0 n0))))
          = [(PANEL_BRIGHTNESS_PATH, uint (rgbToBrightness state))]"
    by (simp add: setPanelBacklight_def Let_def m DEFAULT_MAX_BRIGHTNESS_def set_value_def)
  moreover have "mPanelMaxBrightness (calls mx cs (Light_ctor rank (Some m) a0 n0)) = m"
    by (simp add: calls_max Light_ctor_def get_value_def)
  ultimately show ?thesis
    using m by (simp add: setLight_reachable [OF refl] split_def)
qed

theorem capability_fallback_witness:
  "mPanelMaxBrightness (calls ''/sys/class/leds/mx-led''
       [(BACKLIGHT, solid 0x00FFFFFF), (ATTENTION, solid 0x00FF0000)]
       (Light_ctor Type_val None (solid 0) (solid 0))) = 255
   \<and> writes (fst (snd (setLight ''/sys/class/leds/mx-led'' BACKLIGHT (solid 0x0000FF00)
        (calls ''/sys/class/leds/mx-led''
           [(BACKLIGHT, solid 0x00FFFFFF), (ATTENTION, solid 0x00FF0000)]
           (Light_ctor Type_val None (solid 0) (solid 0))))))
       = [(PANEL_BRIGHTNESS_PATH, 149)]"
  using capability_fallback [of "''/sys/class/leds/mx-led''"
      "[(BACKLIGHT, solid 0x00FFFFFF), (ATTENTION, solid 0x00FF0000)]" Type_val "solid 0" "solid 0"
      "solid 0x0000FF00"]
  by (simp add: split_def rgbToBrightness_def solid_def)

text \<open>
  C8. On a constructed object, after any history of calls, \<open>setLight\<close> on ATTENTION, BACKLIGHT
  or NOTIFICATIONS returns SUCCESS and does what that channel's handler does. The handler
  takes the lock first and releases it last: every assignment to a stored state and every
  device write of the call lies between the two, and the object changes by these
  assignments only.
\<close>

theorem setLight_dispatch:
  assumes "t \<in> {ATTENTION, BACKLIGHT, NOTIFICATIONS}"
    and "l = calls mx cs (Light_ctor rank cap a0 n0)"
  shows "case setLight mx t state l of (st, es, l') \<Rightarrow>
           st = SUCCESS
         \<and> (es, l') = (if t = ATTENTION then setAttentionLight mx state l
                       else if t = BACKLIGHT then setPanelBacklight state l
                       else setNotificationLight mx state l)
         \<and> guarded False es
         \<and> l' = replay es l"
  using assms(1)
  by (auto simp: setLight_reachable [OF assms(2)] split_def guarded_handlers replay_handlers)

theorem setLight_dispatch_witness:
  "ATTENTION \<in> {ATTENTION, BACKLIGHT, NOTIFICATIONS}
   \<and> setLight ''/sys/class/leds/mx-led'' ATTENTION (solid 0x00FFFFFF)
        (Light_ctor Type_val None (solid 0) (solid 0))
       = (SUCCESS,
          [Lock, Assign M_AttentionState (solid 0x00FFFFFF),
           Write ''/sys/class/leds/mx-led/blink'' 10, Unlock],
          (Light_ctor Type_val None (solid 0) (solid 0))\<lparr>mAttentionState := solid 0x00FFFFFF\<rparr>)
   \<and> guarded False [Lock, Assign M_AttentionState (solid 0x00FFFFFF),
           Write ''/sys/class/leds/mx-led/blink'' 10, Unlock]"
proof -
  have h: "setAttentionLight ''/sys/class/leds/mx-led'' (solid 0x00FFFFFF)
        (Light_ctor Type_val None (solid 0) (solid 0))
       = ([Lock, Assign M_AttentionState (solid 0x00FFFFFF),
           Write ''/sys/class/leds/mx-led/blink'' 10, Unlock],
          (Light_ctor Type_val None (solid 0) (solid 0))\<lparr>mAttentionState := solid 0x00FFFFFF\<rparr>)"
    by (simp add: setAttentionLight_def Light_ctor_def Let_def led_events isLit_def solid_def
        MX_LED_BLINK_PATH_def)
  show ?thesis
    using setLight_dispatch [of ATTENTION _ "''/sys/class/leds/mx-led''" "[]" Type_val None
        "solid 0" "solid 0" "solid 0x00FFFFFF", OF _ refl]
    by (auto simp: h split: prod.splits)
qed

text \<open>
  C9. Two \<open>LightState\<close> values whose colours agree on bits 0 to 23 (they may differ in bits 24
  to 31 and in the flash and brightness-mode fields) are lit or unlit alike and have the
  same luma; \<open>setLight\<close> on the same channel and the same object returns the same status and
  makes the same device writes with either, and the stored states afterwards are lit or
  unlit alike.
\<close>

theorem low_24_bits_only:
  assumes "color s1 AND 0x00ffffff = color s2 AND 0x00ffffff"
  shows "isLit s1 = isLit s2
       \<and> rgbToBrightness s1 = rgbToBrightness s2
       \<and> (case setLight mx t s1 l of (st1, es1, l1) \<Rightarrow>
            case setLight mx t s2 l of (st2, es2, l2) \<Rightarrow>
              st1 = st2 \<and> writes es1 = writes es2
            \<and> isLit (mAttentionState l1) = isLit (mAttentionState l2)
            \<and> isLit (mNotificationState l1) = isLit (mNotificationState l2))"
proof -
  note lit = payload_lit [OF assms]
  note luma = payload_luma [OF assms]
  have "case setLight mx t s1 l of (st1, es1, l1) \<Rightarrow>
            case setLight mx t s2 l of (st2, es2, l2) \<Rightarrow>
              st1 = st2 \<and> writes es1 = writes es2
            \<and> isLit (mAttentionState l1) = isLit (mAttentionState l2)
            \<and> isLit (mNotificationState l1) = isLit (mNotificationState l2)"
  proof (cases "find_key t (mLights l)")
    case None
    then show ?thesis by (simp add: setLight_def)
  next
    case (Some h)
    then show ?thesis
      by (cases h)
         (simp_all add: setLight_def setAttentionLight_def setPanelBacklight_def
            setNotificationLight_def Let_def led_events set_value_def lit luma)
  qed
  then show ?thesis
    using lit luma by simp
qed

theorem low_24_bits_only_witness:
  "color (solid 0xFF00FF00 \<lparr>flashMode := TIMED, brightnessMode := SENSOR\<rparr>) AND 0x00ffffff
     = color (solid 0x0000FF00) AND 0x00ffffff
   \<and> writes (fst (snd (setLight ''/sys/class/leds/mx-led'' BACKLIGHT
        (solid 0xFF00FF00 \<lparr>flashMode := TIMED, brightnessMode := SENSOR\<rparr>)
        (Light_ctor Type_val None (solid 0) (solid 0)))))
     = [(PANEL_BRIGHTNESS_PATH, 149)]
   \<and> writes (fst (snd (setLight ''/sys/class/leds/mx-led'' BACKLIGHT (solid 0x0000FF00)
        (Light_ctor Type_val None (solid 0) (solid 0)))))
     = [(PANEL_BRIGHTNESS_PATH, 149)]"
proof -
  have a: "color (solid 0xFF00FF00 \<lparr>flashMode := TIMED, brightnessMode := SENSOR\<rparr>) AND 0x00ffffff
     = color (solid 0x0000FF00) AND 0x00ffffff"
    by (simp add: solid_def)
  have b: "writes (fst (snd (setLight ''/sys/class/leds/mx-led'' BACKLIGHT (solid 0x0000FF00)
        (Light_ctor Type_val None (solid 0) (solid 0)))))
     = [(PANEL_BRIGHTNESS_PATH, 149)]"
    by (simp add: setLight_def Light_ctor_def emplace_def find_key_def setPanelBacklight_def
        Let_def get_value_def set_value_def rgbToBrightness_def solid_def)
  show ?thesis
    using low_24_bits_only [OF a, of "''/sys/class/leds/mx-led''" BACKLIGHT
        "Light_ctor Type_val None (solid 0) (solid 0)"] a b
    by (simp add: split_def)
qed

text \<open>
  C10. The BACKLIGHT handler leaves the object as it is, writes the backlight control only
  and never the LED blink control, whatever \<open>LIGHT_MX_LED_PATH\<close> is. The ATTENTION handler
  changes the attention slot and nothing else in the object, the NOTIFICATIONS handler the
  notification slot and nothing else; both write the LED blink control only, never the
  backlight control.
\<close>

theorem channel_isolation:
  "(case setPanelBacklight state l of (es, l') \<Rightarrow>
      l' = l \<and> map fst (writes es) = [PANEL_BRIGHTNESS_PATH]
      \<and> MX_LED_BLINK_PATH mx \<notin> fst ` set (writes es))
   \<and> (case setAttentionLight mx state l of (es, l') \<Rightarrow>
      l' = l\<lparr>mAttentionState := state\<rparr> \<and> mNotificationState l' = mNotificationState l
      \<and> map fst (writes es) = [MX_LED_BLINK_PATH mx]
      \<and> PANEL_BRIGHTNESS_PATH \<notin> fst ` set (writes es))
   \<and> (case setNotificationLight mx state l of (es, l') \<Rightarrow>
      l' = l\<lparr>mNotificationState := state\<rparr> \<and> mAttentionState l' = mAttentionState l
      \<and> map fst (writes es) = [MX_LED_BLINK_PATH mx]
      \<and> PANEL_BRIGHTNESS_PATH \<notin> fst ` set (writes es))"
  using blink_path_neq [of mx]
  by (auto simp: setPanelBacklight_def setAttentionLight_def setNotificationLight_def Let_def
      led_events set_value_def)

theorem channel_isolation_witness:
  "setPanelBacklight (solid 0x00FFFFFF) (Light_ctor Type_val None (solid 0x00FF0000) (solid 0))
     = ([Lock, Write PANEL_BRIGHTNESS_PATH 255, Unlock],
        Light_ctor Type_val None (solid 0x00FF0000) (solid 0))
   \<and> ''/sys/class/leds/mx-led/blink'' \<noteq> PANEL_BRIGHTNESS_PATH"
proof -
  have "setPanelBacklight (solid 0x00FFFFFF) (Light_ctor Type_val None (solid 0x00FF0000) (solid 0))
     = ([Lock, Write PANEL_BRIGHTNESS_PATH 255, Unlock],
        Light_ctor Type_val None (solid 0x00FF0000) (solid 0))"
    by (simp add: setPanelBacklight_def Light_ctor_def get_value_def Let_def set_value_def
        rgbToBrightness_def solid_def)
  then show ?thesis
    using channel_isolation [where state = "solid 0x00FFFFFF"
        and l = "Light_ctor Type_val None (solid 0x00FF0000) (solid 0)"
        and mx = "''/sys/class/leds/mx-led''"]
    by (simp add: MX_LED_BLINK_PATH_def)
qed

end
